theory Spec2Isabelle
  imports Complex_Main
begin

text \<open>
  A knowledge-graph explorer: a React component \<^verbatim>\<open>App\<close> keeps the graph and merges
  the items that a language model proposes into it (\<^verbatim>\<open>addToGraph\<close>); a component
  \<^verbatim>\<open>GraphVisualization\<close> draws the graph with d3 and tells a click from a drag from
  a long press. This theory embeds the merge and the gesture handlers and proves
  what they do. Line numbers are those of \<^verbatim>\<open>src/unnamed/part_000\<close>, which holds
  \<^verbatim>\<open>SidePanel\<close> (lines 1 to 105), \<^verbatim>\<open>GraphVisualization\<close> (106 to 444) and
  \<^verbatim>\<open>App\<close> (445 to 650).
\<close>

section \<open>Data model (types.ts)\<close>

text \<open>
  The interfaces of \<^verbatim>\<open>types.ts\<close>, field by field. An optional field is an
  \<open>option\<close> (for \<^verbatim>\<open>fx\<close> and \<^verbatim>\<open>fy\<close>, \<open>None\<close> is \<^verbatim>\<open>undefined\<close> or \<^verbatim>\<open>null\<close>); a
  JavaScript number is a \<open>real\<close> (no rounding and no NaN: the statements below
  about coordinates are about exact arithmetic). Field names carry a suffix
  (\<open>_n\<close> node, \<open>_e\<close> edge, \<open>_i\<close> item) because \<open>id\<close>, \<open>x\<close>, \<open>y\<close> cannot be
  constants of a theory. A string of the program is a \<open>string\<close> (see \<open>toLowerCase\<close>
  below for the characters it has); the relation type
  of an item, a union of five string literals, is a string too, since
  \<^verbatim>\<open>getColorForType\<close> takes any string.
\<close>

record GraphNode =
  id_n :: string
  label_n :: string
  x_n :: "real option"
  y_n :: "real option"
  fx_n :: "real option"
  fy_n :: "real option"
  group_n :: "real option"
  radius_n :: "real option"
  color_n :: "string option"
  explanation_n :: "string option"

text \<open>
  \<^verbatim>\<open>source: string | GraphNode\<close>: an edge is created with the ids of its endpoints
  and the force layout later replaces each id by the node object it names
  (\<^verbatim>\<open>// D3 converts string ID to object ref\<close>). The merge reads only the \<open>id\<close> of
  such an object, a field that nothing in the program assigns after creation.
\<close>

datatype endpoint = Str string | Obj GraphNode

record GraphEdge =
  source_e :: endpoint
  target_e :: endpoint
  relation_e :: string
  color_e :: "string option"

record GraphData =
  nodes :: "GraphNode list"
  edges :: "GraphEdge list"

record GeneratedItem =
  label_i :: string
  relation_i :: string
  relationType_i :: string
  explanation_i :: string

section \<open>Helpers of App.tsx\<close>

text \<open>
  \<^verbatim>\<open>String.prototype.toLowerCase\<close>. A character of the model is a UTF-16 code unit
  below 256 (Basic Latin and Latin-1 Supplement; \<open>CHR 0xC9\<close> is the capital E with
  acute accent), and a \<open>string\<close> is a string of the program made of such code units.
  On them the function works unit by unit: the capital letters, A to Z and U+00C0
  to U+00DE without the multiplication sign U+00D7, go to the small letters 32
  places up; every other code unit is kept. Labels with code units from 256 on are
  outside the model.
\<close>

definition upperLetters :: string where
  "upperLetters =
     ''ABCDEFGHIJKLMNOPQRSTUVWXYZ'' @
     [CHR 0xC0, CHR 0xC1, CHR 0xC2, CHR 0xC3, CHR 0xC4, CHR 0xC5, CHR 0xC6, CHR 0xC7,
      CHR 0xC8, CHR 0xC9, CHR 0xCA, CHR 0xCB, CHR 0xCC, CHR 0xCD, CHR 0xCE, CHR 0xCF,
      CHR 0xD0, CHR 0xD1, CHR 0xD2, CHR 0xD3, CHR 0xD4, CHR 0xD5, CHR 0xD6,
      CHR 0xD8, CHR 0xD9, CHR 0xDA, CHR 0xDB, CHR 0xDC, CHR 0xDD, CHR 0xDE]"

definition lowerLetters :: string where
  "lowerLetters =
     ''abcdefghijklmnopqrstuvwxyz'' @
     [CHR 0xE0, CHR 0xE1, CHR 0xE2, CHR 0xE3, CHR 0xE4, CHR 0xE5, CHR 0xE6, CHR 0xE7,
      CHR 0xE8, CHR 0xE9, CHR 0xEA, CHR 0xEB, CHR 0xEC, CHR 0xED, CHR 0xEE, CHR 0xEF,
      CHR 0xF0, CHR 0xF1, CHR 0xF2, CHR 0xF3, CHR 0xF4, CHR 0xF5, CHR 0xF6,
      CHR 0xF8, CHR 0xF9, CHR 0xFA, CHR 0xFB, CHR 0xFC, CHR 0xFD, CHR 0xFE]"

definition lower_char :: "char \<Rightarrow> char" where
  "lower_char c =
     (case map_of (zip upperLetters lowerLetters) c of
        Some d \<Rightarrow> d
      | None \<Rightarrow> c)"

definition toLowerCase :: "string \<Rightarrow> string" where
  "toLowerCase s = map lower_char s"

text \<open>\<^verbatim>\<open>getColorForType\<close>: a switch on the relation type with a default.\<close>

definition getColorForType :: "string \<Rightarrow> string" where
  "getColorForType ty =
     (if ty = ''positive'' then ''#22c55e''
      else if ty = ''negative'' then ''#ef4444''
      else if ty = ''competitor'' then ''#f97316''
      else if ty = ''hierarchical'' then ''#3b82f6''
      else ''#94a3b8'')"

definition NODE_COLORS :: "string list" where
  "NODE_COLORS =
     [''#ec4899'', ''#14b8a6'', ''#6366f1'', ''#f59e0b'', ''#8b5cf6'',
      ''#f43f5e'', ''#0ea5e9'', ''#10b981'', ''#84cc16'', ''#d946ef'']"

text \<open>
  \<^verbatim>\<open>getRandomColor\<close>, with the value \<open>r\<close> of \<^verbatim>\<open>Math.random()\<close> as an argument:
  \<^verbatim>\<open>NODE_COLORS[Math.floor(r * NODE_COLORS.length)]\<close>. Reading an array out of range
  gives \<^verbatim>\<open>undefined\<close>, here \<open>None\<close>.
\<close>

definition getRandomColor :: "real \<Rightarrow> string option" where
  "getRandomColor r =
     (let i = \<lfloor>r * real (length NODE_COLORS)\<rfloor>
      in if 0 \<le> i \<and> i < int (length NODE_COLORS) then Some (NODE_COLORS ! nat i) else None)"

text \<open>
  What one iteration of the merge takes from the clock and the random generator when
  it creates a node: the text of \<^verbatim>\<open>Date.now()\<close>, the text of
  \<^verbatim>\<open>Math.random().toString(36).substr(2, 9)\<close>, and the three values of
  \<^verbatim>\<open>Math.random()\<close> behind the two coordinates and the colour.
\<close>

record entropy =
  stamp :: string
  suffix :: string
  rx :: real
  ry :: real
  rc :: real

text \<open>
  \<^verbatim>\<open>sourceNode.x ? sourceNode.x + (Math.random() - 0.5) * 60 : undefined\<close>.
  The test is JavaScript truthiness: an absent coordinate and the number 0 both take
  the second branch.
\<close>

definition seed :: "real option \<Rightarrow> real \<Rightarrow> real option" where
  "seed c r =
     (case c of
        None \<Rightarrow> None
      | Some v \<Rightarrow> if v = 0 then None else Some (v + (r - 0.5) * 60))"

text \<open>\<^verbatim>\<open>!existingNode.explanation\<close>: true for \<^verbatim>\<open>undefined\<close> and for the empty string.\<close>

definition falsy :: "string option \<Rightarrow> bool" where
  "falsy e = (case e of None \<Rightarrow> True | Some s \<Rightarrow> s = [])"

section \<open>The merge: addToGraph\<close>

text \<open>
  The three locals of the state updater: \<open>nextNodes\<close>, \<open>nextEdges\<close> and \<open>nodeMap\<close>.
  The node objects of an array are pairwise different objects (each is created once
  and pushed once), so the object that \<open>nodeMap\<close> holds for a key is named by its
  position in \<open>nextNodes\<close>, and assigning a field of it updates that position.
\<close>

record mstate =
  nextNodes :: "GraphNode list"
  nextEdges :: "GraphEdge list"
  nodeMap :: "string \<rightharpoonup> nat"

text \<open>
  \<^verbatim>\<open>new Map(nextNodes.map(n => [n.label.toLowerCase(), n]))\<close>: the pairs are
  entered in array order, so of two nodes with one key the later one stays.
\<close>

definition nodeKey :: "GraphNode \<Rightarrow> string" where
  "nodeKey n = toLowerCase (label_n n)"

definition itemKey :: "GeneratedItem \<Rightarrow> string" where
  "itemKey item = toLowerCase (label_i item)"

definition mkNodeMap :: "GraphNode list \<Rightarrow> (string \<rightharpoonup> nat)" where
  "mkNodeMap ns = map_of (rev (zip (map nodeKey ns) [0..<length ns]))"

text \<open>The object literal of a new node (lines 506 to 513).\<close>

definition newNode :: "GraphNode \<Rightarrow> entropy \<Rightarrow> GeneratedItem \<Rightarrow> GraphNode" where
  "newNode sourceNode rnd item =
     \<lparr> id_n = ''n-'' @ stamp rnd @ ''-'' @ suffix rnd,
       label_n = label_i item,
       x_n = seed (x_n sourceNode) (rx rnd),
       y_n = seed (y_n sourceNode) (ry rnd),
       fx_n = None, fy_n = None, group_n = None, radius_n = None,
       color_n = getRandomColor (rc rnd),
       explanation_n = Some (explanation_i item) \<rparr>"

text \<open>
  The first half of the loop body (lines 494 to 517): find or create the target node.
  The result is the state and \<open>targetNodeId\<close>. The position that the map gives is
  always within \<open>nextNodes\<close> (lemmas \<open>forEach_mapOk\<close> and \<open>mkNodeMap_Some\<close> below).
\<close>

definition resolveTarget ::
  "GraphNode \<Rightarrow> entropy \<Rightarrow> GeneratedItem \<Rightarrow> mstate \<Rightarrow> mstate \<times> string" where
  "resolveTarget sourceNode rnd item st =
     (case nodeMap st (itemKey item) of
        Some i \<Rightarrow>
          (let existingNode = nextNodes st ! i
           in (if falsy (explanation_n existingNode) \<and> explanation_i item \<noteq> []
               then st\<lparr>nextNodes :=
                        (nextNodes st)[i := existingNode\<lparr>explanation_n := Some (explanation_i item)\<rparr>]\<rparr>
               else st,
               id_n existingNode))
      | None \<Rightarrow>
          (let n = newNode sourceNode rnd item
           in (st\<lparr>nextNodes := nextNodes st @ [n],
                  nodeMap := (nodeMap st)(itemKey item \<mapsto> length (nextNodes st))\<rparr>,
               id_n n)))"

text \<open>
  \<^verbatim>\<open>e.source === s\<close> holds for an endpoint that is the string \<open>s\<close>;
  \<^verbatim>\<open>(e.source as GraphNode).id === s\<close> holds for an endpoint that is an object with
  that id (the \<^verbatim>\<open>id\<close> of a string is \<^verbatim>\<open>undefined\<close>).
\<close>

fun isStr :: "endpoint \<Rightarrow> string \<Rightarrow> bool" where
  "isStr (Str t) s = (t = s)"
| "isStr (Obj n) s = False"

fun hasId :: "endpoint \<Rightarrow> string \<Rightarrow> bool" where
  "hasId (Str t) s = False"
| "hasId (Obj n) s = (id_n n = s)"

text \<open>The predicate given to \<^verbatim>\<open>nextEdges.some\<close> (lines 519 to 523).\<close>

definition edgeMatches :: "string \<Rightarrow> string \<Rightarrow> GraphEdge \<Rightarrow> bool" where
  "edgeMatches sid tid e =
     ((isStr (source_e e) sid \<and> isStr (target_e e) tid) \<or>
      (isStr (source_e e) tid \<and> isStr (target_e e) sid) \<or>
      (hasId (source_e e) sid \<and> hasId (target_e e) tid))"

definition edgeExists :: "string \<Rightarrow> string \<Rightarrow> GraphEdge list \<Rightarrow> bool" where
  "edgeExists sid tid es = list_ex (edgeMatches sid tid) es"

definition newEdge :: "GraphNode \<Rightarrow> string \<Rightarrow> GeneratedItem \<Rightarrow> GraphEdge" where
  "newEdge sourceNode targetNodeId item =
     \<lparr> source_e = Str (id_n sourceNode),
       target_e = Str targetNodeId,
       relation_e = relation_i item,
       color_e = Some (getColorForType (relationType_i item)) \<rparr>"

text \<open>The second half of the loop body (lines 519 to 532).\<close>

definition addEdge :: "GraphNode \<Rightarrow> GeneratedItem \<Rightarrow> mstate \<times> string \<Rightarrow> mstate" where
  "addEdge sourceNode item p =
     (case p of (st, targetNodeId) \<Rightarrow>
        if \<not> edgeExists (id_n sourceNode) targetNodeId (nextEdges st)
           \<and> id_n sourceNode \<noteq> targetNodeId
        then st\<lparr>nextEdges := nextEdges st @ [newEdge sourceNode targetNodeId item]\<rparr>
        else st)"

definition forEachBody :: "GraphNode \<Rightarrow> entropy \<Rightarrow> GeneratedItem \<Rightarrow> mstate \<Rightarrow> mstate" where
  "forEachBody sourceNode rnd item st =
     addEdge sourceNode item (resolveTarget sourceNode rnd item st)"

text \<open>
  \<^verbatim>\<open>newItems.forEach\<close>: the items in order; \<open>rnd k\<close> is what the clock and the
  random generator give while item number \<open>k\<close> is handled.
\<close>

fun forEachItems ::
  "GraphNode \<Rightarrow> (nat \<Rightarrow> entropy) \<Rightarrow> nat \<Rightarrow> GeneratedItem list \<Rightarrow> mstate \<Rightarrow> mstate" where
  "forEachItems sourceNode rnd k [] st = st"
| "forEachItems sourceNode rnd k (item # items) st =
     forEachItems sourceNode rnd (Suc k) items (forEachBody sourceNode (rnd k) item st)"

text \<open>
  The state updater that \<^verbatim>\<open>addToGraph(sourceNode, newItems)\<close> hands to \<^verbatim>\<open>setData\<close>
  (lines 488 to 536), as a function of the previous graph.
\<close>

definition initState :: "GraphData \<Rightarrow> mstate" where
  "initState prevData =
     \<lparr> nextNodes = nodes prevData, nextEdges = edges prevData,
       nodeMap = mkNodeMap (nodes prevData) \<rparr>"

definition addToGraph ::
  "GraphData \<Rightarrow> GraphNode \<Rightarrow> (nat \<Rightarrow> entropy) \<Rightarrow> GeneratedItem list \<Rightarrow> GraphData" where
  "addToGraph prevData sourceNode rnd newItems =
     (let st = forEachItems sourceNode rnd 0 newItems (initState prevData)
      in \<lparr> nodes = nextNodes st, edges = nextEdges st \<rparr>)"

section \<open>Labels compared case-insensitively\<close>






section \<open>Properties of a graph\<close>

text \<open>The id an endpoint names, whichever of its two forms it has.\<close>

fun endpointId :: "endpoint \<Rightarrow> string" where
  "endpointId (Str s) = s"
| "endpointId (Obj n) = id_n n"

text \<open>Edge \<open>e\<close> connects the unordered pair of ids \<open>a\<close>, \<open>b\<close>.\<close>

definition joins :: "GraphEdge \<Rightarrow> string \<Rightarrow> string \<Rightarrow> bool" where
  "joins e a b =
     ((endpointId (source_e e) = a \<and> endpointId (target_e e) = b) \<or>
      (endpointId (source_e e) = b \<and> endpointId (target_e e) = a))"

text \<open>Every edge's endpoints name nodes of the node list.\<close>

definition endpointsOk :: "GraphData \<Rightarrow> bool" where
  "endpointsOk g =
     list_all (\<lambda>e. endpointId (source_e e) \<in> set (map id_n (nodes g)) \<and>
                    endpointId (target_e e) \<in> set (map id_n (nodes g))) (edges g)"

text \<open>No two edges of a list connect the same unordered pair of ids.\<close>

definition samePair :: "GraphEdge \<Rightarrow> GraphEdge \<Rightarrow> bool" where
  "samePair e e' = joins e' (endpointId (source_e e)) (endpointId (target_e e))"

fun noDupEdges :: "GraphEdge list \<Rightarrow> bool" where
  "noDupEdges [] = True"
| "noDupEdges (e # es) = (\<not> list_ex (samePair e) es \<and> noDupEdges es)"

text \<open>An edge as the merge creates it: both endpoints are still id strings.\<close>

definition strEdge :: "GraphEdge \<Rightarrow> bool" where
  "strEdge e =
     (case source_e e of
        Str a \<Rightarrow> (case target_e e of Str b \<Rightarrow> True | Obj n \<Rightarrow> False)
      | Obj n \<Rightarrow> False)"

text \<open>
  Loop invariants of \<open>forEachItems\<close>: \<open>nodeMap\<close> is the map that the constructor would
  build from \<open>nextNodes\<close>; the edges name listed nodes; item \<open>it\<close> has its node and,
  unless that node carries the source id, an edge between the source id and it.
\<close>

definition mapOk :: "mstate \<Rightarrow> bool" where
  "mapOk st = (nodeMap st = mkNodeMap (nextNodes st))"

definition edgesIn :: "mstate \<Rightarrow> bool" where
  "edgesIn st =
     (\<forall>e \<in> set (nextEdges st).
        endpointId (source_e e) \<in> set (map id_n (nextNodes st)) \<and>
        endpointId (target_e e) \<in> set (map id_n (nextNodes st)))"

definition served :: "mstate \<Rightarrow> string \<Rightarrow> GeneratedItem \<Rightarrow> bool" where
  "served st sid it =
     (\<exists>j < length (nextNodes st).
        map nodeKey (nextNodes st) ! j = itemKey it \<and>
        (map id_n (nextNodes st) ! j \<noteq> sid \<longrightarrow>
           (\<exists>e \<in> set (nextEdges st). joins e sid (map id_n (nextNodes st) ! j))))"

section \<open>The gesture handlers of GraphVisualization.tsx\<close>

text \<open>
  The update effect (lines 212 to 435) declares three variables each time it runs
  (lines 264 to 266), builds a drag behaviour whose three listeners close over them,
  attaches it to the elements that enter in this run only
  (\<^verbatim>\<open>nodeEnter.call(dragBehavior)\<close>, line 307), and registers a click listener that
  closes over the same three variables on every element, entered or kept
  (\<^verbatim>\<open>nodeMerge.on("click", ...)\<close>, line 389, which replaces the listener of the run
  before). The effect has no cleanup, so the listeners and variables of earlier runs
  stay alive on the elements that entered then.
\<close>

record vars =
  isDragging :: bool
  longPressTimer :: "nat option"
  longPressTriggered :: bool

text \<open>The two props the handlers call, with the id of the node they pass.\<close>

datatype callback = NodeClick string | NodeLongPress string

text \<open>
  One \<^verbatim>\<open>g.node-group\<close> element: the run whose drag listeners it carries and the run
  whose click listener it carries.
\<close>

record element =
  dragRun :: nat
  clickRun :: nat

text \<open>
  The variables of every run of the effect (by run number), the elements by node id
  (the join key \<^verbatim>\<open>d => d.id\<close>), the pending timeouts (handle, the run whose closure
  set it, the node), the next timer handle, and the calls made so far.
\<close>

record gstate =
  runs :: "vars list"
  elements :: "string \<rightharpoonup> element"
  timers :: "(nat \<times> nat \<times> string) list"
  nextHandle :: nat
  calls :: "callback list"

text \<open>
  What reaches the handlers: a run of the effect with the ids of \<^verbatim>\<open>data.nodes\<close>; the
  three events of d3-drag on a node's element (pointer down, pointer moved, pointer
  up); the expiry of a timer; the browser's click on a node's element. Time is the
  order of the events: a release within 1000 ms of the press is a \<open>DragEnd\<close> that
  comes before the \<open>Timeout\<close> of the gesture's timer, and a press held for 1000 ms
  is one whose \<open>Timeout\<close> comes before its \<open>DragEnd\<close>.
\<close>

datatype event =
    EffectRun "string list"
  | DragStart string
  | Drag string
  | DragEnd string
  | Timeout nat
  | Click string

definition freshVars :: vars where
  "freshVars = \<lparr> isDragging = False, longPressTimer = None, longPressTriggered = False \<rparr>"

text \<open>
  One run of the effect: new variables; an id with no element enters and gets this
  run's drag and click listeners; an element that stays gets this run's click
  listener and keeps its drag listeners; an element whose id left the data is removed
  (after its fade, which is not modelled).
\<close>

definition effectRun :: "string list \<Rightarrow> gstate \<Rightarrow> gstate" where
  "effectRun ids st =
     (let r = length (runs st)
      in st\<lparr> runs := runs st @ [freshVars],
              elements :=
                (\<lambda>k. if k \<in> set ids
                      then (case elements st k of
                              None \<Rightarrow> Some \<lparr> dragRun = r, clickRun = r \<rparr>
                            | Some el \<Rightarrow> Some (el\<lparr>clickRun := r\<rparr>))
                      else None) \<rparr>)"

text \<open>
  \<^verbatim>\<open>if (longPressTimer) { clearTimeout(longPressTimer); ... }\<close>: a handle is a
  positive integer, so the test fails only for \<^verbatim>\<open>null\<close>; clearing a timer that has
  expired does nothing.
\<close>

definition clearTimeout ::
  "nat option \<Rightarrow> (nat \<times> nat \<times> string) list \<Rightarrow> (nat \<times> nat \<times> string) list" where
  "clearTimeout h ts = (case h of None \<Rightarrow> ts | Some k \<Rightarrow> filter (\<lambda>t. fst t \<noteq> k) ts)"

text \<open>
  The listener of \<^verbatim>\<open>"start"\<close> (lines 269 to 283). The writes to \<^verbatim>\<open>d.fx\<close>, \<^verbatim>\<open>d.fy\<close> and
  the simulation, here and in the next two listeners, concern the layout only and
  are left out.
\<close>

definition onStart :: "string \<Rightarrow> gstate \<Rightarrow> gstate" where
  "onStart d st =
     (case elements st d of
        None \<Rightarrow> st
      | Some el \<Rightarrow>
          st\<lparr> runs := (runs st)[dragRun el :=
                   \<lparr> isDragging = False, longPressTimer = Some (nextHandle st),
                     longPressTriggered = False \<rparr>],
              timers := timers st @ [(nextHandle st, dragRun el, d)],
              nextHandle := Suc (nextHandle st) \<rparr>)"

text \<open>The listener of \<^verbatim>\<open>"drag"\<close> (lines 284 to 294).\<close>

definition onDrag :: "string \<Rightarrow> gstate \<Rightarrow> gstate" where
  "onDrag d st =
     (case elements st d of
        None \<Rightarrow> st
      | Some el \<Rightarrow>
          (let v = runs st ! dragRun el
           in st\<lparr> runs := (runs st)[dragRun el :=
                      v\<lparr>longPressTimer := None, isDragging := True\<rparr>],
                   timers := clearTimeout (longPressTimer v) (timers st) \<rparr>))"

text \<open>The listener of \<^verbatim>\<open>"end"\<close> (lines 295 to 305).\<close>

definition onEnd :: "string \<Rightarrow> gstate \<Rightarrow> gstate" where
  "onEnd d st =
     (case elements st d of
        None \<Rightarrow> st
      | Some el \<Rightarrow>
          (let v = runs st ! dragRun el
           in st\<lparr> runs := (runs st)[dragRun el := v\<lparr>longPressTimer := None\<rparr>],
                   timers := clearTimeout (longPressTimer v) (timers st) \<rparr>))"

text \<open>The function given to \<^verbatim>\<open>setTimeout\<close> (lines 278 to 282), when its timer expires.\<close>

definition onTimeout :: "nat \<Rightarrow> gstate \<Rightarrow> gstate" where
  "onTimeout h st =
     (case find (\<lambda>t. fst t = h) (timers st) of
        None \<Rightarrow> st
      | Some (_, r, d) \<Rightarrow>
          st\<lparr> timers := filter (\<lambda>t. fst t \<noteq> h) (timers st),
              runs := (runs st)[r := (runs st ! r)\<lparr>longPressTriggered := True\<rparr>],
              calls := calls st @ [NodeLongPress d] \<rparr>)"

text \<open>The click listener (lines 389 to 399).\<close>

definition onClick :: "string \<Rightarrow> gstate \<Rightarrow> gstate" where
  "onClick d st =
     (case elements st d of
        None \<Rightarrow> st
      | Some el \<Rightarrow>
          (let v = runs st ! clickRun el
           in if isDragging v \<or> longPressTriggered v then st
              else st\<lparr> calls := calls st @ [NodeClick d] \<rparr>))"

fun deliver :: "gstate \<Rightarrow> event \<Rightarrow> gstate" where
  "deliver st (EffectRun ids) = effectRun ids st"
| "deliver st (DragStart d) = onStart d st"
| "deliver st (Drag d) = onDrag d st"
| "deliver st (DragEnd d) = onEnd d st"
| "deliver st (Timeout h) = onTimeout h st"
| "deliver st (Click d) = onClick d st"

text \<open>The component after mounting, before the update effect has run.\<close>

definition mounted :: gstate where
  "mounted = \<lparr> runs = [], elements = Map.empty, timers = [], nextHandle = 1, calls = [] \<rparr>"

definition dispatch :: "event list \<Rightarrow> gstate \<Rightarrow> gstate" where
  "dispatch evs st = foldl deliver st evs"

section \<open>The scenario of the specification\<close>

text \<open>
  The nodes and items of the Octopus scenario, with positions as the layout would
  have assigned them, and a source of clock and random values.
\<close>

definition octopus :: GraphNode where
  "octopus =
     \<lparr> id_n = ''root-1'', label_n = ''Octopus'', x_n = Some 400, y_n = Some 300,
       fx_n = None, fy_n = None, group_n = None, radius_n = None,
       color_n = Some ''#ec4899'', explanation_n = Some ''A soft-bodied mollusc.'' \<rparr>"

definition cephalopod :: GraphNode where
  "cephalopod =
     \<lparr> id_n = ''n-2-abc'', label_n = ''Cephalopod'', x_n = Some 410, y_n = Some 290,
       fx_n = None, fy_n = None, group_n = None, radius_n = None,
       color_n = Some ''#14b8a6'', explanation_n = Some [] \<rparr>"

definition cephalopodItem :: GeneratedItem where
  "cephalopodItem =
     \<lparr> label_i = ''cephalopod'', relation_i = ''is a type of'',
       relationType_i = ''hierarchical'', explanation_i = ''A class of molluscs.'' \<rparr>"

definition mimicItem :: GeneratedItem where
  "mimicItem =
     \<lparr> label_i = ''Mimic Octopus'', relation_i = ''related species'',
       relationType_i = ''neutral'', explanation_i = ''An octopus that imitates.'' \<rparr>"

definition octopusItem :: GeneratedItem where
  "octopusItem =
     \<lparr> label_i = ''octopus'', relation_i = ''includes'',
       relationType_i = ''hierarchical'', explanation_i = ''Eight arms.'' \<rparr>"

definition rnd0 :: "nat \<Rightarrow> entropy" where
  "rnd0 k =
     \<lparr> stamp = ''7'', suffix = replicate (Suc k) (CHR ''a''),
       rx = 0.25, ry = 0.75, rc = 0 \<rparr>"


text \<open>The edge Octopus to Cephalopod after the layout has resolved its endpoints.\<close>

definition linked :: GraphEdge where
  "linked =
     \<lparr> source_e = Obj octopus, target_e = Obj cephalopod, relation_e = ''includes'',
       color_e = Some ''#3b82f6'' \<rparr>"

lemmas merge_defs =
  addToGraph_def initState_def mkNodeMap_def forEachBody_def resolveTarget_def addEdge_def
  edgeExists_def edgeMatches_def newNode_def newEdge_def seed_def getRandomColor_def
  NODE_COLORS_def itemKey_def nodeKey_def toLowerCase_def lower_char_def upperLetters_def
  lowerLetters_def falsy_def
  getColorForType_def Let_def

lemmas scenario_defs =
  octopus_def cephalopod_def cephalopodItem_def mimicItem_def octopusItem_def rnd0_def
  linked_def

lemmas gesture_defs =
  dispatch_def mounted_def effectRun_def onStart_def onDrag_def onEnd_def onTimeout_def
  onClick_def clearTimeout_def freshVars_def Let_def

section \<open>The loop of the merge, step by step\<close>

subsection \<open>The map from keys to nodes\<close>


lemma mkNodeMap_snoc: "mkNodeMap (ns @ [n]) = (mkNodeMap ns)(nodeKey n \<mapsto> length ns)"
  by (simp add: mkNodeMap_def)

lemma nodeKey_explanation: "nodeKey (n\<lparr>explanation_n := e\<rparr>) = nodeKey n"
  by (simp add: nodeKey_def)

lemma map_update_same: "(map f ns)[i := f (ns ! i)] = map f ns"
proof (cases "i < length ns")
  case True
  then have "f (ns ! i) = map f ns ! i" by simp
  then show ?thesis by (simp only: list_update_id)
next
  case False
  then have "length (map f ns) \<le> i" by simp
  then show ?thesis by (rule list_update_beyond)
qed

lemma mkNodeMap_update:
  "mkNodeMap (ns[i := (ns ! i)\<lparr>explanation_n := e\<rparr>]) = mkNodeMap ns"
proof -
  have "map nodeKey (ns[i := (ns ! i)\<lparr>explanation_n := e\<rparr>]) = map nodeKey ns"
    by (simp only: map_update nodeKey_explanation map_update_same)
  then show ?thesis by (simp add: mkNodeMap_def)
qed

lemma mkNodeMap_Some:
  assumes "mkNodeMap ns k = Some i"
  shows "i < length ns \<and> nodeKey (ns ! i) = k"
proof -
  from assms have "(k, i) \<in> set (zip (map nodeKey ns) [0..<length ns])"
    unfolding mkNodeMap_def by (auto dest: map_of_SomeD)
  then show ?thesis by (auto simp: set_zip)
qed

subsection \<open>What one iteration changes\<close>

lemma resolveTarget_edges: "nextEdges (fst (resolveTarget s r it st)) = nextEdges st"
  by (simp add: resolveTarget_def Let_def split: option.splits)



lemma resolveTarget_ids:
  "map id_n (nextNodes (fst (resolveTarget s r it st))) =
     map id_n (nextNodes st) @
       (case nodeMap st (itemKey it) of Some i \<Rightarrow> [] | None \<Rightarrow> [id_n (newNode s r it)])"
proof (cases "nodeMap st (itemKey it)")
  case None
  then show ?thesis by (simp add: resolveTarget_def Let_def)
next
  case (Some i)
  have "map id_n ((nextNodes st)[i := (nextNodes st ! i)\<lparr>explanation_n := e\<rparr>]) =
          map id_n (nextNodes st)" for e
    using map_update_same[of id_n "nextNodes st" i] by (simp add: map_update)
  with Some show ?thesis by (simp add: resolveTarget_def Let_def)
qed

lemma resolveTarget_keys:
  "map nodeKey (nextNodes (fst (resolveTarget s r it st))) =
     map nodeKey (nextNodes st) @
       (case nodeMap st (itemKey it) of Some i \<Rightarrow> [] | None \<Rightarrow> [itemKey it])"
proof (cases "nodeMap st (itemKey it)")
  case None
  then show ?thesis
    by (simp add: resolveTarget_def Let_def newNode_def nodeKey_def itemKey_def)
next
  case (Some i)
  have "map nodeKey ((nextNodes st)[i := (nextNodes st ! i)\<lparr>explanation_n := e\<rparr>]) =
          map nodeKey (nextNodes st)" for e
    using map_update_same[of nodeKey "nextNodes st" i]
    by (simp add: map_update nodeKey_explanation)
  with Some show ?thesis by (simp add: resolveTarget_def Let_def)
qed

lemma addEdge_nodes: "nextNodes (addEdge s it p) = nextNodes (fst p)"
  by (simp add: addEdge_def split: prod.splits)

lemma addEdge_map: "nodeMap (addEdge s it p) = nodeMap (fst p)"
  by (simp add: addEdge_def split: prod.splits)

lemma addEdge_edges:
  "nextEdges (addEdge s it (st, tid)) =
     nextEdges st @ (if \<not> edgeExists (id_n s) tid (nextEdges st) \<and> id_n s \<noteq> tid
                     then [newEdge s tid it] else [])"
  by (simp add: addEdge_def)



lemma forEach_append:
  "forEachItems s rnd k (pre @ post) st =
     forEachItems s rnd (k + length pre) post (forEachItems s rnd k pre st)"
  by (induction pre arbitrary: k st) simp_all

lemma addToGraph_nodes:
  "nodes (addToGraph g s rnd items) = nextNodes (forEachItems s rnd 0 items (initState g))"
  by (simp add: addToGraph_def Let_def)

lemma addToGraph_append:
  "nodes (addToGraph g s rnd (pre @ post)) =
     nextNodes (forEachItems s rnd (length pre) post
                  (forEachItems s rnd 0 pre (initState g)))"
  by (simp add: addToGraph_def Let_def forEach_append)

subsection \<open>The map stays the map of the node list\<close>

lemma mapOk_init: "mapOk (initState g)"
  by (simp add: mapOk_def initState_def)

lemma resolveTarget_mapOk: "mapOk st \<Longrightarrow> mapOk (fst (resolveTarget s r it st))"
  by (simp add: mapOk_def resolveTarget_def Let_def mkNodeMap_snoc mkNodeMap_update
      itemKey_def nodeKey_def newNode_def split: option.splits)

lemma body_mapOk: "mapOk st \<Longrightarrow> mapOk (forEachBody s r it st)"
  using resolveTarget_mapOk[of st s r it]
  by (simp add: mapOk_def forEachBody_def addEdge_nodes addEdge_map)

lemma forEach_mapOk: "mapOk st \<Longrightarrow> mapOk (forEachItems s rnd k items st)"
  by (induction items arbitrary: k st) (simp_all add: body_mapOk)

section \<open>The scenario, merged\<close>

text \<open>
  The embedding on the scenario of the specification: Octopus alone; the expansion
  with Cephalopod and Mimic Octopus gives three nodes and two edges from the root;
  expanding the root again with an item labelled CEPHALOPOD changes nothing.
\<close>

lemma scenario_expansion:
  "addToGraph \<lparr>nodes = [octopus], edges = []\<rparr> octopus rnd0 [cephalopodItem, mimicItem] =
     \<lparr> nodes =
         [octopus,
          \<lparr> id_n = ''n-7-a'', label_n = ''cephalopod'', x_n = Some 385, y_n = Some 315,
            fx_n = None, fy_n = None, group_n = None, radius_n = None,
            color_n = Some ''#ec4899'', explanation_n = Some ''A class of molluscs.'' \<rparr>,
          \<lparr> id_n = ''n-7-aa'', label_n = ''Mimic Octopus'', x_n = Some 385, y_n = Some 315,
            fx_n = None, fy_n = None, group_n = None, radius_n = None,
            color_n = Some ''#ec4899'', explanation_n = Some ''An octopus that imitates.'' \<rparr>],
       edges =
         [\<lparr> source_e = Str ''root-1'', target_e = Str ''n-7-a'',
            relation_e = ''is a type of'', color_e = Some ''#3b82f6'' \<rparr>,
          \<lparr> source_e = Str ''root-1'', target_e = Str ''n-7-aa'',
            relation_e = ''related species'', color_e = Some ''#94a3b8'' \<rparr>] \<rparr>"
  by (simp add: merge_defs scenario_defs)

lemma scenario_again:
  "addToGraph (addToGraph \<lparr>nodes = [octopus], edges = []\<rparr> octopus rnd0
                 [cephalopodItem, mimicItem]) octopus rnd0
      [cephalopodItem\<lparr>label_i := ''CEPHALOPOD''\<rparr>] =
     addToGraph \<lparr>nodes = [octopus], edges = []\<rparr> octopus rnd0 [cephalopodItem, mimicItem]"
  unfolding scenario_expansion by (simp add: merge_defs scenario_defs)

section \<open>An empty batch\<close>

text \<open>
  Claim C9. Merging an empty item list gives the graph back: the same node list and
  the same edge list, whatever the source node, its position and the random values.
\<close>

theorem addToGraph_no_items: "addToGraph g sourceNode rnd [] = g"
  by (simp add: addToGraph_def initState_def)

section \<open>The key of a label and the comparison of labels\<close>











section \<open>The number of nodes\<close>





section \<open>A cached explanation is kept\<close>

lemma resolveTarget_keep:
  assumes "i < length (nextNodes st)" "\<not> falsy (explanation_n (nextNodes st ! i))"
  shows "i < length (nextNodes (fst (resolveTarget s r it st))) \<and>
         nextNodes (fst (resolveTarget s r it st)) ! i = nextNodes st ! i"
proof (cases "nodeMap st (itemKey it)")
  case None
  with assms(1) show ?thesis
    by (simp add: resolveTarget_def Let_def nth_append)
next
  case (Some j)
  show ?thesis
  proof (cases "j = i")
    case True
    with Some assms show ?thesis by (simp add: resolveTarget_def Let_def)
  next
    case False
    with Some assms(1) show ?thesis by (simp add: resolveTarget_def Let_def)
  qed
qed

lemma body_keep:
  assumes "i < length (nextNodes st)" "\<not> falsy (explanation_n (nextNodes st ! i))"
  shows "i < length (nextNodes (forEachBody s r it st)) \<and>
         nextNodes (forEachBody s r it st) ! i = nextNodes st ! i"
  using resolveTarget_keep[OF assms, of s r it]
  by (simp only: forEachBody_def addEdge_nodes)

lemma forEach_keep:
  "i < length (nextNodes st) \<Longrightarrow> \<not> falsy (explanation_n (nextNodes st ! i)) \<Longrightarrow>
   i < length (nextNodes (forEachItems s rnd k items st)) \<and>
   nextNodes (forEachItems s rnd k items st) ! i = nextNodes st ! i"
proof (induction items arbitrary: k st)
  case Nil
  then show ?case by simp
next
  case (Cons it items)
  let ?st1 = "forEachBody s (rnd k) it st"
  from body_keep[OF Cons.prems, of s "rnd k" it]
  have 1: "i < length (nextNodes ?st1)" and 2: "nextNodes ?st1 ! i = nextNodes st ! i"
    by simp_all
  from 2 Cons.prems(2) have 3: "\<not> falsy (explanation_n (nextNodes ?st1 ! i))" by simp
  from Cons.IH[OF 1 3, of "Suc k"] 2 show ?case by simp
qed

text \<open>
  Claim C5. A node that holds a non-empty explanation keeps it through the merge:
  take any point of the batch, after the items \<open>pre\<close> (none of them, for the nodes of
  the input graph); a node that holds a non-empty explanation \<open>e\<close> there holds \<open>e\<close>
  when the rest of the batch has been merged, whichever items resolve to it.
\<close>

theorem addToGraph_keeps_explanation:
  assumes "i < length (nodes (addToGraph g sourceNode rnd pre))"
    and "explanation_n (nodes (addToGraph g sourceNode rnd pre) ! i) = Some e"
    and "e \<noteq> []"
  shows "i < length (nodes (addToGraph g sourceNode rnd (pre @ post))) \<and>
         explanation_n (nodes (addToGraph g sourceNode rnd (pre @ post)) ! i) = Some e"
proof -
  let ?st = "forEachItems sourceNode rnd 0 pre (initState g)"
  from assms(1) have 1: "i < length (nextNodes ?st)" by (simp only: addToGraph_nodes)
  from assms(2) have e: "explanation_n (nextNodes ?st ! i) = Some e"
    by (simp only: addToGraph_nodes)
  with assms(3) have 2: "\<not> falsy (explanation_n (nextNodes ?st ! i))"
    by (simp add: falsy_def)
  from forEach_keep[OF 1 2, of sourceNode rnd "length pre" post] e
  show ?thesis by (simp only: addToGraph_append)
qed

text \<open>
  Octopus has an explanation; an item labelled octopus with another explanation
  resolves to it and leaves it as it was.
\<close>

theorem addToGraph_keeps_explanation_witness:
  "(0::nat) < length (nodes (addToGraph \<lparr>nodes = [octopus, cephalopod], edges = []\<rparr> cephalopod rnd0 [])) \<and>
   explanation_n (nodes (addToGraph \<lparr>nodes = [octopus, cephalopod], edges = []\<rparr> cephalopod rnd0 []) ! 0)
     = Some ''A soft-bodied mollusc.'' \<and>
   ''A soft-bodied mollusc.'' \<noteq> [] \<and>
   explanation_i octopusItem = ''Eight arms.'' \<and>
   explanation_n (nodes (addToGraph \<lparr>nodes = [octopus, cephalopod], edges = []\<rparr> cephalopod rnd0
                           ([] @ [octopusItem])) ! 0)
     = Some ''A soft-bodied mollusc.''"
proof -
  have 1: "(0::nat) < length (nodes (addToGraph \<lparr>nodes = [octopus, cephalopod], edges = []\<rparr> cephalopod rnd0 []))"
    by (simp add: addToGraph_def initState_def)
  have 2: "explanation_n (nodes (addToGraph \<lparr>nodes = [octopus, cephalopod], edges = []\<rparr> cephalopod rnd0 []) ! 0)
     = Some ''A soft-bodied mollusc.''"
    by (simp add: addToGraph_def initState_def octopus_def)
  have 3: "''A soft-bodied mollusc.'' \<noteq> []" by simp
  have 4: "explanation_i octopusItem = ''Eight arms.''" by (simp add: octopusItem_def)
  from addToGraph_keeps_explanation[OF 1 2 3, of "[octopusItem]"] 1 2 3 4
  show ?thesis by simp
qed

section \<open>Backfilling an explanation\<close>

lemma addToGraph_snoc_nodes:
  "nodes (addToGraph g s rnd (pre @ [it])) =
     nextNodes (fst (resolveTarget s (rnd (length pre)) it
                       (forEachItems s rnd 0 pre (initState g))))"
  by (simp add: addToGraph_append forEachBody_def addEdge_nodes)

lemma falsy_iff: "falsy x = (x = None \<or> x = Some [])"
  by (cases x) (simp_all add: falsy_def)

text \<open>
  Claim C10. Take any point of the batch, after the items \<open>pre\<close>, and an item whose
  key the map resolves to the node at position \<open>i\<close>. Merging the item changes that
  node and no other: its explanation becomes the item's exactly when it was absent
  or the empty string and the item's is not empty; otherwise the node stays as it
  is. So an empty-string explanation is overwritten by a later item, and an item
  with an empty explanation writes nothing.
\<close>

theorem addToGraph_backfill:
  assumes "mkNodeMap (nodes (addToGraph g sourceNode rnd pre)) (itemKey item) = Some i"
  shows "i < length (nodes (addToGraph g sourceNode rnd pre)) \<and>
         nodes (addToGraph g sourceNode rnd (pre @ [item])) =
           (nodes (addToGraph g sourceNode rnd pre))
             [i := (let existingNode = nodes (addToGraph g sourceNode rnd pre) ! i
                    in if (explanation_n existingNode = None \<or>
                           explanation_n existingNode = Some [])
                          \<and> explanation_i item \<noteq> []
                       then existingNode\<lparr>explanation_n := Some (explanation_i item)\<rparr>
                       else existingNode)]"
proof -
  let ?st = "forEachItems sourceNode rnd 0 pre (initState g)"
  have ok: "nodeMap ?st = mkNodeMap (nextNodes ?st)"
    using forEach_mapOk[OF mapOk_init, of sourceNode rnd 0 pre g] by (simp only: mapOk_def)
  have n: "nodes (addToGraph g sourceNode rnd pre) = nextNodes ?st"
    by (rule addToGraph_nodes)
  from assms have look: "nodeMap ?st (itemKey item) = Some i" by (simp only: n ok)
  from assms have "mkNodeMap (nextNodes ?st) (itemKey item) = Some i" by (simp only: n)
  then have len: "i < length (nextNodes ?st)" by (rule mkNodeMap_Some[THEN conjunct1])
  show ?thesis
    unfolding addToGraph_snoc_nodes n
    using look len by (simp add: resolveTarget_def Let_def falsy_iff)
qed

text \<open>
  Cephalopod holds the empty string; the item labelled cephalopod resolves to it
  (position 1) and its explanation is written.
\<close>

theorem addToGraph_backfill_witness:
  "mkNodeMap (nodes (addToGraph \<lparr>nodes = [octopus, cephalopod], edges = []\<rparr> octopus rnd0 []))
      (itemKey cephalopodItem) = Some 1 \<and>
   explanation_n (nodes (addToGraph \<lparr>nodes = [octopus, cephalopod], edges = []\<rparr> octopus rnd0 []) ! 1)
      = Some [] \<and>
   nodes (addToGraph \<lparr>nodes = [octopus, cephalopod], edges = []\<rparr> octopus rnd0 ([] @ [cephalopodItem]))
      = [octopus, cephalopod\<lparr>explanation_n := Some ''A class of molluscs.''\<rparr>]"
proof -
  have 1: "mkNodeMap (nodes (addToGraph \<lparr>nodes = [octopus, cephalopod], edges = []\<rparr> octopus rnd0 []))
      (itemKey cephalopodItem) = Some 1"
    by (simp add: merge_defs scenario_defs)
  have 2: "nodes (addToGraph \<lparr>nodes = [octopus, cephalopod], edges = []\<rparr> octopus rnd0 [])
      = [octopus, cephalopod]"
    by (simp add: addToGraph_def initState_def)
  have 3: "explanation_n cephalopod = Some []" "explanation_i cephalopodItem = ''A class of molluscs.''"
    by (simp_all add: scenario_defs)
  from addToGraph_backfill[OF 1] show ?thesis
    unfolding 2 using 1 3 by (simp add: 2)
qed

section \<open>Edges name nodes of the graph\<close>

lemma resolveTarget_target:
  assumes "mapOk st"
  shows "\<exists>j < length (nextNodes (fst (resolveTarget s r it st))).
           map id_n (nextNodes (fst (resolveTarget s r it st))) ! j
             = snd (resolveTarget s r it st) \<and>
           map nodeKey (nextNodes (fst (resolveTarget s r it st))) ! j = itemKey it"
proof (cases "nodeMap st (itemKey it)")
  case None
  have "length (nextNodes (fst (resolveTarget s r it st))) = Suc (length (nextNodes st))"
    using None by (simp add: resolveTarget_def Let_def)
  moreover have "snd (resolveTarget s r it st) = id_n (newNode s r it)"
    using None by (simp add: resolveTarget_def Let_def)
  ultimately show ?thesis
    unfolding resolveTarget_ids resolveTarget_keys using None
    by (intro exI[of _ "length (nextNodes st)"]) (simp add: nth_append)
next
  case (Some i)
  with assms have "mkNodeMap (nextNodes st) (itemKey it) = Some i" by (simp add: mapOk_def)
  then have i: "i < length (nextNodes st)" "nodeKey (nextNodes st ! i) = itemKey it"
    using mkNodeMap_Some by blast+
  have "length (nextNodes (fst (resolveTarget s r it st))) = length (nextNodes st)"
    using Some by (simp add: resolveTarget_def Let_def)
  moreover have "snd (resolveTarget s r it st) = id_n (nextNodes st ! i)"
    using Some by (simp add: resolveTarget_def Let_def)
  ultimately show ?thesis
    unfolding resolveTarget_ids resolveTarget_keys using Some i
    by (intro exI[of _ i]) simp
qed

lemma body_edgesIn:
  assumes "mapOk st" "id_n s \<in> set (map id_n (nextNodes st))" "edgesIn st"
  shows "edgesIn (forEachBody s r it st) \<and>
         id_n s \<in> set (map id_n (nextNodes (forEachBody s r it st)))"
proof -
  obtain st1 tid where rt: "resolveTarget s r it st = (st1, tid)"
    by (cases "resolveTarget s r it st")
  have ids: "set (map id_n (nextNodes st)) \<subseteq> set (map id_n (nextNodes st1))"
    using resolveTarget_ids[of s r it st] rt by (auto simp del: set_map)
  have e1: "nextEdges st1 = nextEdges st" using resolveTarget_edges[of s r it st] rt by simp
  have tid: "tid \<in> set (map id_n (nextNodes st1))"
  proof -
    from resolveTarget_target[OF assms(1), of s r it] rt
    obtain j where "j < length (nextNodes st1)" "map id_n (nextNodes st1) ! j = tid" by auto
    then show ?thesis by (metis length_map nth_mem)
  qed
  have body: "forEachBody s r it st = addEdge s it (st1, tid)"
    by (simp add: forEachBody_def rt)
  have n: "nextNodes (forEachBody s r it st) = nextNodes st1"
    by (simp add: body addEdge_nodes)
  have sid: "id_n s \<in> set (map id_n (nextNodes st1))" using assms(2) ids by blast
  have "edgesIn (forEachBody s r it st)"
    unfolding edgesIn_def n body addEdge_edges e1
    using assms(3) ids tid sid
    by (auto simp: edgesIn_def newEdge_def addEdge_nodes simp del: set_map)
  with sid n show ?thesis by simp
qed

lemma forEach_edgesIn:
  "mapOk st \<Longrightarrow> id_n s \<in> set (map id_n (nextNodes st)) \<Longrightarrow> edgesIn st \<Longrightarrow>
   edgesIn (forEachItems s rnd k items st)"
proof (induction items arbitrary: k st)
  case Nil
  then show ?case by simp
next
  case (Cons it items)
  from body_edgesIn[OF Cons.prems, of "rnd k" it] body_mapOk[OF Cons.prems(1), of s "rnd k" it]
  show ?case using Cons.IH[of "forEachBody s (rnd k) it st" "Suc k"] by simp
qed

text \<open>
  Claim C4. When the source node's id is the id of a node of the graph and every
  edge's endpoints name nodes of the graph, every edge's endpoints name nodes of
  the merged graph.
\<close>

theorem addToGraph_endpoints_present:
  assumes "id_n sourceNode \<in> set (map id_n (nodes g))" and "endpointsOk g"
  shows "endpointsOk (addToGraph g sourceNode rnd newItems)"
proof -
  have 1: "id_n sourceNode \<in> set (map id_n (nextNodes (initState g)))"
    using assms(1) by (simp add: initState_def)
  have 2: "edgesIn (initState g)"
    using assms(2) by (simp add: edgesIn_def endpointsOk_def initState_def list_all_iff)
  from forEach_edgesIn[OF mapOk_init 1 2, of rnd 0 newItems]
  show ?thesis by (simp add: edgesIn_def endpointsOk_def addToGraph_def Let_def list_all_iff)
qed

text \<open>
  Octopus and Cephalopod with their resolved edge; Cephalopod is expanded with a new
  item and with one that names Octopus.
\<close>

theorem addToGraph_endpoints_present_witness:
  "id_n cephalopod \<in> set (map id_n (nodes \<lparr>nodes = [octopus, cephalopod], edges = [linked]\<rparr>)) \<and>
   endpointsOk \<lparr>nodes = [octopus, cephalopod], edges = [linked]\<rparr> \<and>
   length (edges (addToGraph \<lparr>nodes = [octopus, cephalopod], edges = [linked]\<rparr> cephalopod rnd0
                    [mimicItem, octopusItem])) = 3 \<and>
   endpointsOk (addToGraph \<lparr>nodes = [octopus, cephalopod], edges = [linked]\<rparr> cephalopod rnd0
                  [mimicItem, octopusItem])"
proof -
  have 1: "id_n cephalopod \<in> set (map id_n (nodes \<lparr>nodes = [octopus, cephalopod], edges = [linked]\<rparr>))"
    by (simp add: scenario_defs)
  have 2: "endpointsOk \<lparr>nodes = [octopus, cephalopod], edges = [linked]\<rparr>"
    by (simp add: endpointsOk_def scenario_defs)
  have 3: "length (edges (addToGraph \<lparr>nodes = [octopus, cephalopod], edges = [linked]\<rparr> cephalopod rnd0
                    [mimicItem, octopusItem])) = 3"
    by (simp add: merge_defs scenario_defs)
  from addToGraph_endpoints_present[OF 1 2, of rnd0 "[mimicItem, octopusItem]"] 1 2 3
  show ?thesis by simp
qed

section \<open>A source node that is not in the graph\<close>

lemma edgeMatches_joins: "edgeMatches a b e \<Longrightarrow> joins e a b"
  by (cases "source_e e"; cases "target_e e") (auto simp: edgeMatches_def joins_def)

lemma body_edges_mono: "set (nextEdges st) \<subseteq> set (nextEdges (forEachBody s r it st))"
proof -
  obtain st1 tid where rt: "resolveTarget s r it st = (st1, tid)"
    by (cases "resolveTarget s r it st")
  have "nextEdges st1 = nextEdges st" using resolveTarget_edges[of s r it st] rt by simp
  then show ?thesis by (auto simp: forEachBody_def rt addEdge_edges)
qed

lemma body_ids:
  "\<exists>ext. map id_n (nextNodes (forEachBody s r it st)) = map id_n (nextNodes st) @ ext"
  by (simp only: forEachBody_def addEdge_nodes resolveTarget_ids) blast

lemma body_keys:
  "\<exists>ext. map nodeKey (nextNodes (forEachBody s r it st)) = map nodeKey (nextNodes st) @ ext"
  by (simp only: forEachBody_def addEdge_nodes resolveTarget_keys) blast

lemma body_served_keep:
  assumes "served st sid it'"
  shows "served (forEachBody s r it st) sid it'"
proof -
  let ?st' = "forEachBody s r it st"
  from assms obtain j where j: "j < length (nextNodes st)"
      "map nodeKey (nextNodes st) ! j = itemKey it'"
      "map id_n (nextNodes st) ! j \<noteq> sid \<longrightarrow>
           (\<exists>e \<in> set (nextEdges st). joins e sid (map id_n (nextNodes st) ! j))"
    unfolding served_def by blast
  obtain ei where ei: "map id_n (nextNodes ?st') = map id_n (nextNodes st) @ ei"
    using body_ids by blast
  obtain ek where ek: "map nodeKey (nextNodes ?st') = map nodeKey (nextNodes st) @ ek"
    using body_keys by blast
  from ei have "length (nextNodes ?st') = length (nextNodes st) + length ei"
    by (metis length_append length_map)
  with j(1) have 1: "j < length (nextNodes ?st')" by simp
  from j(1) have 2: "map id_n (nextNodes ?st') ! j = map id_n (nextNodes st) ! j"
    unfolding ei by (simp add: nth_append)
  from j(1) have 3: "map nodeKey (nextNodes ?st') ! j = map nodeKey (nextNodes st) ! j"
    unfolding ek by (simp add: nth_append)
  from j(3) body_edges_mono[of st s r it]
  have 4: "map id_n (nextNodes st) ! j \<noteq> sid \<longrightarrow>
           (\<exists>e \<in> set (nextEdges ?st'). joins e sid (map id_n (nextNodes st) ! j))"
    by blast
  show ?thesis unfolding served_def
    using 1 2 3 4 j(2) by (intro exI[of _ j]) (simp only: simp_thms)
qed

lemma body_served_new:
  assumes "mapOk st"
  shows "served (forEachBody s r it st) (id_n s) it"
proof -
  obtain st1 tid where rt: "resolveTarget s r it st = (st1, tid)"
    by (cases "resolveTarget s r it st")
  from resolveTarget_target[OF assms, of s r it] rt
  obtain j where j: "j < length (nextNodes st1)" "map id_n (nextNodes st1) ! j = tid"
     "map nodeKey (nextNodes st1) ! j = itemKey it" by auto
  have body: "forEachBody s r it st = addEdge s it (st1, tid)"
    by (simp add: forEachBody_def rt)
  have n: "nextNodes (forEachBody s r it st) = nextNodes st1"
    by (simp add: body addEdge_nodes)
  have "tid \<noteq> id_n s \<longrightarrow>
          (\<exists>e \<in> set (nextEdges (addEdge s it (st1, tid))). joins e (id_n s) tid)"
  proof (cases "edgeExists (id_n s) tid (nextEdges st1)")
    case True
    then obtain e where "e \<in> set (nextEdges st1)" "edgeMatches (id_n s) tid e"
      by (auto simp: edgeExists_def list_ex_iff)
    then show ?thesis by (auto simp: addEdge_edges dest: edgeMatches_joins)
  next
    case False
    have "joins (newEdge s tid it) (id_n s) tid" by (simp add: joins_def newEdge_def)
    with False show ?thesis by (auto simp: addEdge_edges)
  qed
  then show ?thesis
    unfolding served_def n unfolding body using j by (intro exI[of _ j]) simp
qed

lemma forEach_served_keep:
  "served st sid it' \<Longrightarrow> served (forEachItems s rnd k items st) sid it'"
  by (induction items arbitrary: k st) (simp_all add: body_served_keep)

lemma forEach_served:
  "mapOk st \<Longrightarrow> it \<in> set items \<Longrightarrow> served (forEachItems s rnd k items st) (id_n s) it"
proof (induction items arbitrary: k st)
  case Nil
  then show ?case by simp
next
  case (Cons a items)
  show ?case
  proof (cases "it = a")
    case True
    from body_served_new[OF Cons.prems(1), of s "rnd k" a]
    show ?thesis unfolding True by (simp add: forEach_served_keep)
  next
    case False
    with Cons.prems(2) have mem: "it \<in> set items" by simp
    from Cons.IH[OF body_mapOk[OF Cons.prems(1)] mem] show ?thesis by simp
  qed
qed

text \<open>
  Claim C1 says that for a source node whose id is not in the graph the edge is not
  created. It is: Cephalopod is not a node of the graph that holds Octopus alone (as
  when the answer to a long press arrives after a search has replaced the graph),
  and merging one item from it adds an edge whose source is the missing id.
\<close>

theorem addToGraph_missing_source_counterexample:
  "id_n cephalopod \<notin> set (map id_n (nodes \<lparr>nodes = [octopus], edges = []\<rparr>)) \<and>
   edges (addToGraph \<lparr>nodes = [octopus], edges = []\<rparr> cephalopod rnd0 [mimicItem]) =
     [\<lparr> source_e = Str ''n-2-abc'', target_e = Str ''n-7-a'',
        relation_e = ''related species'', color_e = Some ''#94a3b8'' \<rparr>]"
  by (simp add: merge_defs scenario_defs)

text \<open>
  Claim C1, amended. The merge is a total function and makes no test that the
  source is a node of the graph. For every merge call, so also for one whose source
  id is missing, every item of the batch is processed: the result has a node with
  the item's key and, unless that node carries the source id itself, an edge that
  joins the source id and that node.
\<close>

theorem addToGraph_links_every_item:
  "\<forall>item \<in> set newItems.
     \<exists>n \<in> set (nodes (addToGraph g sourceNode rnd newItems)).
        nodeKey n = itemKey item \<and>
        (id_n n \<noteq> id_n sourceNode \<longrightarrow>
           (\<exists>e \<in> set (edges (addToGraph g sourceNode rnd newItems)).
              joins e (id_n sourceNode) (id_n n)))"
proof
  fix item assume mem: "item \<in> set newItems"
  let ?st = "forEachItems sourceNode rnd 0 newItems (initState g)"
  from forEach_served[OF mapOk_init mem, of sourceNode rnd 0 g]
  obtain j where j: "j < length (nextNodes ?st)"
      "map nodeKey (nextNodes ?st) ! j = itemKey item"
      "map id_n (nextNodes ?st) ! j \<noteq> id_n sourceNode \<longrightarrow>
           (\<exists>e \<in> set (nextEdges ?st).
              joins e (id_n sourceNode) (map id_n (nextNodes ?st) ! j))"
    unfolding served_def by blast
  have g: "nodes (addToGraph g sourceNode rnd newItems) = nextNodes ?st"
     "edges (addToGraph g sourceNode rnd newItems) = nextEdges ?st"
    by (simp_all add: addToGraph_def Let_def)
  from j show "\<exists>n \<in> set (nodes (addToGraph g sourceNode rnd newItems)).
        nodeKey n = itemKey item \<and>
        (id_n n \<noteq> id_n sourceNode \<longrightarrow>
           (\<exists>e \<in> set (edges (addToGraph g sourceNode rnd newItems)).
              joins e (id_n sourceNode) (id_n n)))"
    unfolding g by (intro bexI[of _ "nextNodes ?st ! j"]) simp_all
qed

text \<open>The same call: the missing source, its one item, the node and the edge.\<close>

theorem addToGraph_links_every_item_witness:
  "id_n cephalopod \<notin> set (map id_n (nodes \<lparr>nodes = [octopus], edges = []\<rparr>)) \<and>
   mimicItem \<in> set [mimicItem] \<and>
   (\<exists>n \<in> set (nodes (addToGraph \<lparr>nodes = [octopus], edges = []\<rparr> cephalopod rnd0 [mimicItem])).
      nodeKey n = itemKey mimicItem \<and> id_n n \<noteq> id_n cephalopod \<and>
      (\<exists>e \<in> set (edges (addToGraph \<lparr>nodes = [octopus], edges = []\<rparr> cephalopod rnd0 [mimicItem])).
         joins e (id_n cephalopod) (id_n n)))"
proof -
  have 1: "id_n cephalopod \<notin> set (map id_n (nodes \<lparr>nodes = [octopus], edges = []\<rparr>))"
    by (simp add: scenario_defs)
  have 2: "\<forall>n \<in> set (nodes (addToGraph \<lparr>nodes = [octopus], edges = []\<rparr> cephalopod rnd0 [mimicItem])).
      id_n n \<noteq> id_n cephalopod"
    by (simp add: merge_defs scenario_defs)
  from addToGraph_links_every_item[of "[mimicItem]" "\<lparr>nodes = [octopus], edges = []\<rparr>" cephalopod rnd0]
  have "\<exists>n \<in> set (nodes (addToGraph \<lparr>nodes = [octopus], edges = []\<rparr> cephalopod rnd0 [mimicItem])).
      nodeKey n = itemKey mimicItem \<and>
      (id_n n \<noteq> id_n cephalopod \<longrightarrow>
      (\<exists>e \<in> set (edges (addToGraph \<lparr>nodes = [octopus], edges = []\<rparr> cephalopod rnd0 [mimicItem])).
         joins e (id_n cephalopod) (id_n n)))"
    by simp
  with 2 have "\<exists>n \<in> set (nodes (addToGraph \<lparr>nodes = [octopus], edges = []\<rparr> cephalopod rnd0 [mimicItem])).
      nodeKey n = itemKey mimicItem \<and> id_n n \<noteq> id_n cephalopod \<and>
      (\<exists>e \<in> set (edges (addToGraph \<lparr>nodes = [octopus], edges = []\<rparr> cephalopod rnd0 [mimicItem])).
         joins e (id_n cephalopod) (id_n n))"
    by blast
  with 1 show ?thesis by simp
qed

section \<open>Two edges between one pair of nodes\<close>

lemma samePair_sym: "samePair e e' = samePair e' e"
  by (auto simp: samePair_def joins_def)

lemma noDupEdges_snoc:
  "noDupEdges (es @ [e]) = (noDupEdges es \<and> \<not> list_ex (samePair e) es)"
  by (induction es) (auto simp: list_ex_iff samePair_sym)

lemma strEdge_matches: "strEdge e \<Longrightarrow> edgeMatches a b e = joins e a b"
  by (cases "source_e e"; cases "target_e e")
     (auto simp: strEdge_def edgeMatches_def joins_def)

lemma addEdge_noDup:
  assumes "list_all strEdge (nextEdges st)" "noDupEdges (nextEdges st)"
  shows "list_all strEdge (nextEdges (addEdge s it (st, tid))) \<and>
         noDupEdges (nextEdges (addEdge s it (st, tid)))"
proof (cases "\<not> edgeExists (id_n s) tid (nextEdges st) \<and> id_n s \<noteq> tid")
  case False
  then have "nextEdges (addEdge s it (st, tid)) = nextEdges st"
    by (auto simp: addEdge_edges)
  with assms show ?thesis by simp
next
  case True
  have str: "strEdge (newEdge s tid it)" by (simp add: strEdge_def newEdge_def)
  have "\<not> list_ex (samePair (newEdge s tid it)) (nextEdges st)"
  proof
    assume "list_ex (samePair (newEdge s tid it)) (nextEdges st)"
    then obtain e where e: "e \<in> set (nextEdges st)" "joins e (id_n s) tid"
      by (auto simp: list_ex_iff samePair_def newEdge_def)
    with assms(1) have "edgeMatches (id_n s) tid e"
      by (simp add: list_all_iff strEdge_matches)
    with e(1) True show False by (auto simp: edgeExists_def list_ex_iff)
  qed
  moreover from True
  have "nextEdges (addEdge s it (st, tid)) = nextEdges st @ [newEdge s tid it]"
    by (simp add: addEdge_edges)
  ultimately show ?thesis using assms str by (simp add: noDupEdges_snoc)
qed

lemma body_noDup:
  assumes "list_all strEdge (nextEdges st)" "noDupEdges (nextEdges st)"
  shows "list_all strEdge (nextEdges (forEachBody s r it st)) \<and>
         noDupEdges (nextEdges (forEachBody s r it st))"
proof -
  obtain st1 tid where rt: "resolveTarget s r it st = (st1, tid)"
    by (cases "resolveTarget s r it st")
  have e1: "nextEdges st1 = nextEdges st" using resolveTarget_edges[of s r it st] rt by simp
  from assms have "list_all strEdge (nextEdges st1)" "noDupEdges (nextEdges st1)"
    by (simp_all add: e1)
  from addEdge_noDup[OF this] show ?thesis by (simp add: forEachBody_def rt)
qed

lemma forEach_noDup:
  "list_all strEdge (nextEdges st) \<Longrightarrow> noDupEdges (nextEdges st) \<Longrightarrow>
   list_all strEdge (nextEdges (forEachItems s rnd k items st)) \<and>
   noDupEdges (nextEdges (forEachItems s rnd k items st))"
proof (induction items arbitrary: k st)
  case Nil
  then show ?case by simp
next
  case (Cons it items)
  from body_noDup[OF Cons.prems, of s "rnd k" it]
    Cons.IH[of "forEachBody s (rnd k) it st" "Suc k"]
  show ?case by simp
qed

text \<open>
  While every edge still has its two endpoints as id strings, the test before an
  edge is added sees an edge in either direction, and the merge keeps one edge at
  most for each pair of nodes.
\<close>

lemma addToGraph_noDup_strings:
  assumes "list_all strEdge (edges g)" "noDupEdges (edges g)"
  shows "noDupEdges (edges (addToGraph g s rnd items))"
  using forEach_noDup[of "initState g" s rnd 0 items] assms
  by (simp add: addToGraph_def Let_def initState_def)

text \<open>
  Claim C3: when no two edges of the graph connect the same unordered pair of node
  ids, no two edges of the merged graph do. The code does not keep this once the
  layout has replaced the endpoints of an edge by node objects: the third disjunct
  of the test is then the only one that can see the edge, and it compares in one
  direction only. Octopus and Cephalopod are joined by one resolved edge from
  Octopus to Cephalopod; expanding Cephalopod with an item labelled octopus adds a
  second edge, from Cephalopod to Octopus.
\<close>

theorem addToGraph_duplicates_resolved_edge:
  "noDupEdges (edges \<lparr>nodes = [octopus, cephalopod], edges = [linked]\<rparr>) \<and>
   edges (addToGraph \<lparr>nodes = [octopus, cephalopod], edges = [linked]\<rparr> cephalopod rnd0
            [octopusItem]) =
     [linked,
      \<lparr> source_e = Str ''n-2-abc'', target_e = Str ''root-1'', relation_e = ''includes'',
        color_e = Some ''#3b82f6'' \<rparr>] \<and>
   joins linked ''n-2-abc'' ''root-1'' \<and>
   \<not> noDupEdges (edges (addToGraph \<lparr>nodes = [octopus, cephalopod], edges = [linked]\<rparr>
                           cephalopod rnd0 [octopusItem]))"
  by (simp add: merge_defs scenario_defs samePair_def joins_def)

section \<open>The position of a new node\<close>

text \<open>
  A coordinate of the source other than 0 seeds the new node's coordinate within 30
  units of it, for every value of the random generator (which lies in [0, 1)).
\<close>

lemma seed_near:
  assumes "v \<noteq> 0" "0 \<le> r" "r < 1"
  shows "\<exists>w. seed (Some v) r = Some w \<and> \<bar>w - v\<bar> \<le> 30"
  using assms by (simp add: seed_def abs_le_iff)

text \<open>
  Claim C8: when the source node has a position, every node the merge creates gets
  a position, each coordinate within 30 units of the source's. The code does not do
  so for a coordinate that is 0. The source's coordinate is tested for truthiness,
  and 0 is a number that is not truthy: a source at x = 0, y = 300 has a position,
  and the node created from it has no x at all (its y is seeded, 315).
\<close>

theorem addToGraph_no_position_at_zero:
  "x_n (octopus\<lparr>x_n := Some 0\<rparr>) = Some 0 \<and> y_n (octopus\<lparr>x_n := Some 0\<rparr>) = Some 300 \<and>
   map (\<lambda>n. (label_n n, x_n n, y_n n))
     (nodes (addToGraph \<lparr>nodes = [octopus\<lparr>x_n := Some 0\<rparr>], edges = []\<rparr>
               (octopus\<lparr>x_n := Some 0\<rparr>) rnd0 [mimicItem])) =
     [(''Octopus'', Some 0, Some 300), (''Mimic Octopus'', None, Some 315)]"
  by (simp add: merge_defs scenario_defs)

section \<open>Click, drag and long press\<close>

lemma find_snoc:
  "find P (xs @ [x]) =
     (case find P xs of None \<Rightarrow> (if P x then Some x else None) | Some y \<Rightarrow> Some y)"
  by (induction xs) simp_all

text \<open>
  While an element's click listener and drag listeners belong to the same run of the
  effect, the three variables do their work: a press and release calls the click
  prop once and leaves no timer of the gesture behind, and a press held until the
  timer expires calls the long-press prop once and no click prop.
\<close>

lemma tap_same_run:
  assumes "elements st d = Some el" and "clickRun el = dragRun el"
    and "dragRun el < length (runs st)"
  shows "calls (dispatch [DragStart d, DragEnd d, Click d] st) = calls st @ [NodeClick d]"
    and "find (\<lambda>t. fst t = nextHandle st)
           (timers (dispatch [DragStart d, DragEnd d, Click d] st)) = None"
  using assms by (simp_all add: gesture_defs find_None_iff)

lemma hold_same_run:
  assumes "elements st d = Some el" and "clickRun el = dragRun el"
    and "dragRun el < length (runs st)"
    and "find (\<lambda>t. fst t = nextHandle st) (timers st) = None"
  shows "calls (dispatch [DragStart d, Timeout (nextHandle st), DragEnd d, Click d] st) =
           calls st @ [NodeLongPress d]"
  using assms by (simp add: gesture_defs find_snoc)

text \<open>
  When the click listener of an element belongs to another run than its drag
  listeners and that run's \<open>isDragging\<close> is set, a press and release calls nothing.
\<close>

lemma tap_other_run_dragging:
  assumes "elements st d = Some el" and "clickRun el \<noteq> dragRun el"
    and "dragRun el < length (runs st)" and "clickRun el < length (runs st)"
    and "isDragging (runs st ! clickRun el)"
  shows "calls (dispatch [DragStart d, DragEnd d, Click d] st) = calls st"
  using assms by (simp add: gesture_defs)

text \<open>
  A run of the effect between the expiry of the timer and the release gives the
  element a click listener over new variables, and the click after the release
  calls the click prop.
\<close>

lemma hold_then_rerun:
  assumes "elements st d = Some el"
    and "dragRun el < length (runs st)"
    and "find (\<lambda>t. fst t = nextHandle st) (timers st) = None"
    and "d \<in> set ids"
  shows "calls (dispatch [DragStart d, Timeout (nextHandle st), EffectRun ids,
                          DragEnd d, Click d] st) =
           calls st @ [NodeLongPress d, NodeClick d]"
  using assms by (simp add: gesture_defs find_snoc nth_append)

text \<open>
  Claim C6: a press on a node that is released within 1000 ms, with no movement,
  calls the click prop exactly once and the long-press prop not at all. The code
  does not do so in every interaction. The root enters in the first run of the
  effect and Cephalopod in the second, which commits the expansion (the state
  updates that follow the answer to \<^verbatim>\<open>generateRelatedNodes\<close> are committed
  together, and no state changes afterwards until a callback is called).
  Cephalopod is dragged: the second run's \<open>isDragging\<close> becomes true, and nothing
  resets it but a press on a node that entered in that run. The root is then
  pressed and released at once, with no movement and before its timer expires. Its
  drag listeners reset the first run's variables; its click listener reads the
  second run's, and returns. Neither prop is called.
\<close>

theorem click_lost_after_drag_of_newer_node:
  "calls (dispatch
            [EffectRun [''root-1''], EffectRun [''root-1'', ''n-2-abc''],
             DragStart ''n-2-abc'', Drag ''n-2-abc'', DragEnd ''n-2-abc'']
            mounted) = [] \<and>
   calls (dispatch
            [EffectRun [''root-1''], EffectRun [''root-1'', ''n-2-abc''],
             DragStart ''n-2-abc'', Drag ''n-2-abc'', DragEnd ''n-2-abc'',
             DragStart ''root-1'', DragEnd ''root-1'', Click ''root-1'']
            mounted) = []"
  by (simp add: gesture_defs)

text \<open>
  Claim C7: a press on a node held for 1000 ms with no movement calls the
  long-press prop exactly once, when the timer expires, and the release that
  follows calls no click prop. The code calls the click prop on that release.
  Cephalopod is pressed and held; the timer (handle 1) expires and the long-press
  prop is called. That call sets the loading node (\<^verbatim>\<open>setLoadingNodeId(node.id)\<close> in
  \<^verbatim>\<open>handleNodeLongPress\<close>, line 607), a dependency of the effect (line 435), so the
  effect runs again and registers a click listener over new variables. On release
  the click listener finds both flags false and calls the click prop.
\<close>

theorem click_follows_long_press:
  "calls (dispatch
            [EffectRun [''root-1''], EffectRun [''root-1'', ''n-2-abc''],
             DragStart ''n-2-abc'', Timeout 1, EffectRun [''root-1'', ''n-2-abc''],
             DragEnd ''n-2-abc'', Click ''n-2-abc'']
            mounted) = [NodeLongPress ''n-2-abc'', NodeClick ''n-2-abc'']"
  by (simp add: gesture_defs)

end
